theory Spec2Isabelle
  imports Complex_Main
begin

section \<open>UV and vitamin D tracker: the estimation and session engine of page.tsx\<close>

text \<open>
  Conventions of the embedding.
  \<^item> A JavaScript number is a \<open>real\<close>, the exact value of the double; \<open>NaN\<close>, the
    infinities and the signed zero are outside the model. The formulas of the estimation
    engine and of the exposure calculator are read as exact arithmetic. Where a last bit
    decides the result, in the sum that the stop handler rounds to an integer, every
    operation is rounded to double precision by \<open>binary64\<close>. Where the source divides by
    a value that can be zero, the result is a \<open>jsnum\<close> that names the non-finite outcome.
  \<^item> A JavaScript string is a \<open>string\<close>: a list of 8-bit characters, read as the UTF-16
    code units 0 to 255 (ASCII and the Latin-1 supplement). On this range the
    lower-casing of the language is the function \<open>toLowerCase\<close> below.
  \<^item> The clock is a parameter: \<open>month\<close> is what \<open>new Date().getMonth()\<close> returned
    (0 to 11), \<open>hourLabel i\<close> is what \<open>format(addHours(now, i), 'haaa')\<close> returned.
  \<^item> React state is a record that every handler takes and returns; the browser's
    localStorage is a field of it, and every exception the source catches is a branch.
\<close>

subsection \<open>Preset tables\<close>

datatype ClothingPreset = minimal | light | moderate | covered

datatype SunscreenPreset = none | spf15 | spf30 | spf50

record preset =
  label :: string
  attenuation :: real

fun clothingPresets :: "ClothingPreset \<Rightarrow> preset" where
  "clothingPresets minimal = \<lparr>label = ''Minimal (shorts & tee)'', attenuation = 1\<rparr>"
| "clothingPresets light = \<lparr>label = ''Light layers'', attenuation = 0.8\<rparr>"
| "clothingPresets moderate = \<lparr>label = ''Moderate coverage'', attenuation = 0.6\<rparr>"
| "clothingPresets covered = \<lparr>label = ''Mostly covered'', attenuation = 0.4\<rparr>"

fun sunscreenPresets :: "SunscreenPreset \<Rightarrow> preset" where
  "sunscreenPresets none = \<lparr>label = ''No sunscreen'', attenuation = 1\<rparr>"
| "sunscreenPresets spf15 = \<lparr>label = ''SPF 15'', attenuation = 0.6\<rparr>"
| "sunscreenPresets spf30 = \<lparr>label = ''SPF 30'', attenuation = 0.4\<rparr>"
| "sunscreenPresets spf50 = \<lparr>label = ''SPF 50'', attenuation = 0.2\<rparr>"

subsection \<open>Built-in number functions\<close>

text \<open>
  \<open>Number(x.toFixed(1))\<close>: the multiple of one tenth nearest to \<open>x\<close>, the larger in
  magnitude at a tie; a negative \<open>x\<close> is rounded as \<open>-x\<close> and the sign put back.
  (Above \<open>10^21\<close> the built-in prints the number itself; a double of that size is an
  integer, so the value is the same.)
\<close>

definition toFixed1 :: "real \<Rightarrow> real" where
  "toFixed1 x =
     (if x < 0 then - (of_int \<lfloor>- x * 10 + 1 / 2\<rfloor> / 10)
      else of_int \<lfloor>x * 10 + 1 / 2\<rfloor> / 10)"

text \<open>\<open>Math.round\<close>: the nearest integer, a tie going up.\<close>

definition Math_round :: "real \<Rightarrow> real" where
  "Math_round x = of_int \<lfloor>x + 1 / 2\<rfloor>"

text \<open>
  Double precision: the result of an arithmetic operation, and the value of a decimal
  literal or text, is the exact result rounded to the nearest number with a 53-bit
  significand, a tie going to the even significand. Below \<open>2^-1022\<close> the spacing stays
  \<open>2^-1074\<close>; overflow to infinity is not modelled.
\<close>

definition roundTiesToEven :: "real \<Rightarrow> int" where
  "roundTiesToEven y =
     (let f = \<lfloor>y\<rfloor>; r = y - of_int f
      in if r < 1 / 2 then f
         else if 1 / 2 < r then f + 1
         else if even f then f else f + 1)"

definition binary64 :: "real \<Rightarrow> real" where
  "binary64 x =
     (if x = 0 then 0
      else
        let e = max \<lfloor>log 2 \<bar>x\<bar>\<rfloor> (- 1022);
            ulp = 2 powr (of_int e - 52)
        in of_int (roundTiesToEven (x / ulp)) * ulp)"

subsection \<open>Exposure calculator\<close>

record exposure =
  effectiveUv :: real
  vitaminGain :: real

definition calculateExposureGain ::
    "real \<Rightarrow> real \<Rightarrow> ClothingPreset \<Rightarrow> SunscreenPreset \<Rightarrow> exposure" where
  "calculateExposureGain seconds baseUv clothing sunscreen =
     (let minutes = seconds / 60;
          clothingFactor = attenuation (clothingPresets clothing);
          sunscreenFactor = attenuation (sunscreenPresets sunscreen);
          effectiveUv = baseUv * clothingFactor * sunscreenFactor;
          vitaminGain = effectiveUv * minutes * 5
      in \<lparr>effectiveUv = effectiveUv, vitaminGain = vitaminGain\<rparr>)"

text \<open>
  The same function with the result of every operation and the value of every constant
  passed through a rounding \<open>rnd\<close>: with \<open>binary64\<close> it is what the doubles compute.
\<close>

definition calculateExposureGain_rounded ::
    "(real \<Rightarrow> real) \<Rightarrow> real \<Rightarrow> real \<Rightarrow> ClothingPreset \<Rightarrow> SunscreenPreset \<Rightarrow> exposure" where
  "calculateExposureGain_rounded rnd seconds baseUv clothing sunscreen =
     (let minutes = rnd (seconds / 60);
          clothingFactor = rnd (attenuation (clothingPresets clothing));
          sunscreenFactor = rnd (attenuation (sunscreenPresets sunscreen));
          effectiveUv = rnd (rnd (baseUv * clothingFactor) * sunscreenFactor);
          vitaminGain = rnd (rnd (effectiveUv * minutes) * 5)
      in \<lparr>effectiveUv = effectiveUv, vitaminGain = vitaminGain\<rparr>)"

subsection \<open>Risk label\<close>

definition determineRiskLabel :: "real \<Rightarrow> string" where
  "determineRiskLabel uv =
     (if uv < 3 then ''Low''
      else if uv < 6 then ''Moderate''
      else if uv < 8 then ''High''
      else if uv < 11 then ''Very High''
      else ''Extreme'')"

subsection \<open>Estimation engine\<close>

text \<open>
  \<open>String.prototype.toLowerCase\<close> on the code units 0 to 255: the letters A to Z and
  the capital letters of the Latin-1 supplement (192 to 222 without the multiplication
  sign 215) move up by 32, every other unit stays.
\<close>

definition lowerChar :: "char \<Rightarrow> char" where
  "lowerChar c =
     (let n = (of_char c :: nat)
      in if (65 \<le> n \<and> n \<le> 90) \<or> (192 \<le> n \<and> n \<le> 214) \<or> (216 \<le> n \<and> n \<le> 222)
         then char_of (n + 32) else c)"

definition toLowerCase :: "string \<Rightarrow> string" where
  "toLowerCase s = map lowerChar s"

definition charCodeAt0 :: "char \<Rightarrow> nat" where
  "charCodeAt0 c = of_char c"

definition deriveBaseUv :: "nat \<Rightarrow> string \<Rightarrow> real" where
  "deriveBaseUv month location =
     (let hash = foldl (\<lambda>acc ch. acc + charCodeAt0 ch) 0 (toLowerCase location);
          seasonalBoost = sin (((real month + 1) / 12) * pi);
          normalized = (real (hash mod 700) / 700) * 6 + 2
      in toFixed1 (min (normalized + seasonalBoost * 3) 11))"

text \<open>
  The wording of the specification for the same value: the character codes of the
  location string itself are summed.
\<close>

definition spec_deriveBaseUv :: "nat \<Rightarrow> string \<Rightarrow> real" where
  "spec_deriveBaseUv month location =
     toFixed1 (min (real (sum_list (map charCodeAt0 location) mod 700) / 700 * 6 + 2
                    + sin ((real month + 1) / 12 * pi) * 3) 11)"

record HourlyForecast =
  hour :: string
  uv :: real

definition generateForecast :: "(nat \<Rightarrow> string) \<Rightarrow> real \<Rightarrow> HourlyForecast list" where
  "generateForecast hourLabel baseUv =
     map (\<lambda>index.
            let modifier = sin ((real index / 8) * pi);
                uv = max (toFixed1 (baseUv * (0.4 + modifier))) 0
            in \<lparr>hour = hourLabel index, uv = uv\<rparr>)
         [0..<8]"

subsection \<open>Persisted state and the storage slot\<close>

record PersistedState =
  location :: string
  clothing :: ClothingPreset
  sunscreen :: SunscreenPreset
  vitaminGoal :: real
  vitaminProgress :: real

definition defaultPersistedState :: PersistedState where
  "defaultPersistedState =
     \<lparr>location = ''San Francisco, CA'', clothing = light, sunscreen = spf30,
      vitaminGoal = 1000, vitaminProgress = 250\<rparr>"

text \<open>
  \<open>Partial<PersistedState>\<close>: every property is there or not. The object that
  \<open>JSON.parse\<close> returns is read the same way: a property that is missing or \<open>null\<close>
  is \<open>None\<close>, and the cast \<open>as PersistedState\<close> is taken at its word for the type of a
  property that is there.
\<close>

record Partial =
  p_location :: "string option"
  p_clothing :: "ClothingPreset option"
  p_sunscreen :: "SunscreenPreset option"
  p_vitaminGoal :: "real option"
  p_vitaminProgress :: "real option"

definition noUpdates :: Partial where
  "noUpdates =
     \<lparr>p_location = None, p_clothing = None, p_sunscreen = None,
      p_vitaminGoal = None, p_vitaminProgress = None\<rparr>"

text \<open>
  The text under the key \<open>uv-tracker-state-v1\<close>, by what the load makes of it: the
  empty text, a text that is not JSON, the text \<open>null\<close>, or the text of a value whose
  properties read as the given partial state.
\<close>

datatype raw = EmptyText | Malformed | NullText | ObjectText Partial

datatype json = JNull | JObject Partial

datatype js_error = SecurityError | QuotaExceededError | SyntaxError | TypeError

record localStorage =
  item :: "raw option"
  readable :: bool
  writable :: bool

definition getItem :: "localStorage \<Rightarrow> js_error + raw option" where
  "getItem st = (if readable st then Inr (item st) else Inl SecurityError)"

definition setItem :: "raw \<Rightarrow> localStorage \<Rightarrow> js_error + localStorage" where
  "setItem v st = (if writable st then Inr (st\<lparr>item := Some v\<rparr>) else Inl QuotaExceededError)"

fun JSON_parse :: "raw \<Rightarrow> js_error + json" where
  "JSON_parse EmptyText = Inl SyntaxError"
| "JSON_parse Malformed = Inl SyntaxError"
| "JSON_parse NullText = Inr JNull"
| "JSON_parse (ObjectText p) = Inr (JObject p)"

definition JSON_stringify :: "PersistedState \<Rightarrow> raw" where
  "JSON_stringify s =
     ObjectText \<lparr>p_location = Some (location s), p_clothing = Some (clothing s),
                 p_sunscreen = Some (sunscreen s), p_vitaminGoal = Some (vitaminGoal s),
                 p_vitaminProgress = Some (vitaminProgress s)\<rparr>"

text \<open>
  \<open>value || fallback\<close> at each type: the empty string and the number 0 are falsy, a
  preset name never is.
\<close>

fun or_string :: "string option \<Rightarrow> string \<Rightarrow> string" where
  "or_string None d = d"
| "or_string (Some v) d = (if v = [] then d else v)"

fun or_number :: "real option \<Rightarrow> real \<Rightarrow> real" where
  "or_number None d = d"
| "or_number (Some v) d = (if v = 0 then d else v)"

fun or_preset :: "'a option \<Rightarrow> 'a \<Rightarrow> 'a" where
  "or_preset None d = d"
| "or_preset (Some v) d = v"

subsection \<open>The component state and its effects\<close>

record app =
  persistedState :: PersistedState
  ready :: bool
  sessionActive :: bool
  sessionSeconds :: nat
  storage :: localStorage

definition initialApp :: "localStorage \<Rightarrow> app" where
  "initialApp st =
     \<lparr>persistedState = defaultPersistedState, ready = False,
      sessionActive = False, sessionSeconds = 0, storage = st\<rparr>"

text \<open>
  The body of the \<open>try\<close> of the load effect: an error, no call of \<open>setState\<close>, or the
  state it sets. Reading a property of \<open>null\<close> is the TypeError.
\<close>

definition tryLoad :: "localStorage \<Rightarrow> js_error + PersistedState option" where
  "tryLoad st =
     (case getItem st of
        Inl e \<Rightarrow> Inl e
      | Inr None \<Rightarrow> Inr None
      | Inr (Some r) \<Rightarrow>
          if r = EmptyText then Inr None
          else (case JSON_parse r of
                  Inl e \<Rightarrow> Inl e
                | Inr JNull \<Rightarrow> Inl TypeError
                | Inr (JObject parsed) \<Rightarrow>
                    Inr (Some
                      \<lparr>location = or_string (p_location parsed) (location defaultPersistedState),
                       clothing = or_preset (p_clothing parsed) (clothing defaultPersistedState),
                       sunscreen = or_preset (p_sunscreen parsed) (sunscreen defaultPersistedState),
                       vitaminGoal =
                         or_number (p_vitaminGoal parsed) (vitaminGoal defaultPersistedState),
                       vitaminProgress =
                         or_number (p_vitaminProgress parsed)
                           (vitaminProgress defaultPersistedState)\<rparr>)))"

definition loadEffect :: "app \<Rightarrow> app" where
  "loadEffect a =
     (let a' = (case tryLoad (storage a) of
                  Inl e \<Rightarrow> a
                | Inr None \<Rightarrow> a
                | Inr (Some s) \<Rightarrow> a\<lparr>persistedState := s\<rparr>)
      in a'\<lparr>ready := True\<rparr>)"

definition merge :: "PersistedState \<Rightarrow> Partial \<Rightarrow> PersistedState" where
  "merge prev updates =
     \<lparr>location = (case p_location updates of None \<Rightarrow> location prev | Some v \<Rightarrow> v),
      clothing = (case p_clothing updates of None \<Rightarrow> clothing prev | Some v \<Rightarrow> v),
      sunscreen = (case p_sunscreen updates of None \<Rightarrow> sunscreen prev | Some v \<Rightarrow> v),
      vitaminGoal = (case p_vitaminGoal updates of None \<Rightarrow> vitaminGoal prev | Some v \<Rightarrow> v),
      vitaminProgress =
        (case p_vitaminProgress updates of None \<Rightarrow> vitaminProgress prev | Some v \<Rightarrow> v)\<rparr>"

definition updateState :: "Partial \<Rightarrow> app \<Rightarrow> app" where
  "updateState updates a =
     (let next = merge (persistedState a) updates;
          st = (case setItem (JSON_stringify next) (storage a) of
                  Inl e \<Rightarrow> storage a
                | Inr st' \<Rightarrow> st')
      in a\<lparr>persistedState := next, storage := st\<rparr>)"

definition readyEffect :: "app \<Rightarrow> app" where
  "readyEffect a = (if \<not> ready a then a else updateState noUpdates a)"

text \<open>Mounting the component on a storage: the load effect, then the effect on \<open>ready\<close>.\<close>

definition mount :: "localStorage \<Rightarrow> app" where
  "mount st = readyEffect (loadEffect (initialApp st))"

subsection \<open>Session timer and handlers\<close>

text \<open>The interval exists only while the session is active.\<close>

definition tick :: "app \<Rightarrow> app" where
  "tick a = (if \<not> sessionActive a then a else a\<lparr>sessionSeconds := sessionSeconds a + 1\<rparr>)"

definition handleStart :: "app \<Rightarrow> app" where
  "handleStart a =
     (if sessionActive a then a else a\<lparr>sessionSeconds := 0, sessionActive := True\<rparr>)"

text \<open>
  \<open>baseUv\<close> is the memoised \<open>deriveBaseUv(persistedState.location)\<close>; \<open>month\<close> is the
  month at which it was derived. \<open>Math.round\<close> makes the last bit of the sum visible, so
  the handler is read in double precision: \<open>baseUv\<close> is the double that \<open>Number\<close> reads
  from the text of \<open>toFixed(1)\<close>, the calculator rounds every operation, and so does the
  sum with the progress.
\<close>

definition handleStop :: "nat \<Rightarrow> app \<Rightarrow> app" where
  "handleStop month a =
     (if \<not> sessionActive a then a
      else
        let a' = a\<lparr>sessionActive := False\<rparr>;
            baseUv = binary64 (deriveBaseUv month (location (persistedState a)));
            g = calculateExposureGain_rounded binary64 (real (sessionSeconds a)) baseUv
                  (clothing (persistedState a)) (sunscreen (persistedState a))
        in updateState
             (noUpdates\<lparr>p_vitaminProgress :=
                Some (Math_round
                        (binary64 (vitaminProgress (persistedState a) + vitaminGain g)))\<rparr>)
             a')"

definition handleReset :: "app \<Rightarrow> app" where
  "handleReset a = a\<lparr>sessionActive := False, sessionSeconds := 0\<rparr>"

text \<open>
  The value of the goal field, an input of type number: \<open>None\<close> is the empty string (what
  the field reports for a text that is not a number), \<open>Some r\<close> the text of the number
  \<open>r\<close>. The handler stores \<open>Number(value || 0)\<close>.
\<close>

definition onGoalChange :: "real option \<Rightarrow> app \<Rightarrow> app" where
  "onGoalChange v a =
     updateState (noUpdates\<lparr>p_vitaminGoal := Some (case v of None \<Rightarrow> 0 | Some r \<Rightarrow> r)\<rparr>) a"

definition minus100 :: "app \<Rightarrow> app" where
  "minus100 a =
     updateState
       (noUpdates\<lparr>p_vitaminProgress := Some (max (vitaminProgress (persistedState a) - 100) 0)\<rparr>)
       a"

definition plus100 :: "app \<Rightarrow> app" where
  "plus100 a =
     updateState
       (noUpdates\<lparr>p_vitaminProgress := Some (vitaminProgress (persistedState a) + 100)\<rparr>) a"

definition resetProgress :: "app \<Rightarrow> app" where
  "resetProgress a = updateState (noUpdates\<lparr>p_vitaminProgress := Some 0\<rparr>) a"

text \<open>
  The width of the progress bar. With a goal of 0 the quotient is not a finite number:
  a positive progress gives \<open>Infinity\<close> and \<open>Math.min\<close> returns 100, a negative one gives
  \<open>-Infinity\<close>, and \<open>0 / 0\<close> is \<open>NaN\<close>.
\<close>

datatype jsnum = Finite real | NegInfinity | NaN

definition progressPercentage :: "PersistedState \<Rightarrow> jsnum" where
  "progressPercentage s =
     (if vitaminGoal s = 0
      then (if 0 < vitaminProgress s then Finite 100
            else if vitaminProgress s < 0 then NegInfinity
            else NaN)
      else Finite (min ((vitaminProgress s / vitaminGoal s) * 100) 100))"

text \<open>Everything the rendered page can do to the state, and a run of such events.\<close>

datatype event =
    LocationChange string
  | ClothingChange ClothingPreset
  | SunscreenChange SunscreenPreset
  | GoalChange "real option"
  | Minus100
  | Plus100
  | ResetProgress
  | Start
  | Stop nat
  | Reset
  | Tick

fun handle :: "app \<Rightarrow> event \<Rightarrow> app" where
  "handle a (LocationChange v) = updateState (noUpdates\<lparr>p_location := Some v\<rparr>) a"
| "handle a (ClothingChange v) = updateState (noUpdates\<lparr>p_clothing := Some v\<rparr>) a"
| "handle a (SunscreenChange v) = updateState (noUpdates\<lparr>p_sunscreen := Some v\<rparr>) a"
| "handle a (GoalChange v) = onGoalChange v a"
| "handle a Minus100 = minus100 a"
| "handle a Plus100 = plus100 a"
| "handle a ResetProgress = resetProgress a"
| "handle a Start = handleStart a"
| "handle a (Stop month) = handleStop month a"
| "handle a Reset = handleReset a"
| "handle a Tick = tick a"

definition run :: "app \<Rightarrow> event list \<Rightarrow> app" where
  "run a evs = foldl handle a evs"

text \<open>The conditions under which the goal stays positive.\<close>

fun positiveGoalEdit :: "event \<Rightarrow> bool" where
  "positiveGoalEdit (GoalChange None) = False"
| "positiveGoalEdit (GoalChange (Some r)) = (0 < r)"
| "positiveGoalEdit e = True"

fun storedGoalNotNegative :: "raw option \<Rightarrow> bool" where
  "storedGoalNotNegative (Some (ObjectText p)) =
     (case p_vitaminGoal p of None \<Rightarrow> True | Some g \<Rightarrow> 0 \<le> g)"
| "storedGoalNotNegative r = True"

text \<open>Example states: a working empty storage, one holding a progress of 0, a session that has run
  for 45 seconds at the location "A" with minimal clothing, no sunscreen and progress 0.\<close>

definition okStorage :: localStorage where
  "okStorage = \<lparr>item = None, readable = True, writable = True\<rparr>"

definition zeroProgressStorage :: localStorage where
  "zeroProgressStorage =
     \<lparr>item = Some (JSON_stringify (defaultPersistedState\<lparr>vitaminProgress := 0\<rparr>)),
      readable = True, writable = True\<rparr>"

definition running45 :: app where
  "running45 = (initialApp okStorage)
     \<lparr>persistedState :=
        \<lparr>location = ''A'', clothing = minimal, sunscreen = none,
         vitaminGoal = 1000, vitaminProgress = 0\<rparr>,
      ready := True, sessionActive := True, sessionSeconds := 45\<rparr>"

section \<open>Properties\<close>

subsection \<open>Helper facts\<close>

lemma toFixed1_ge_2: "2 \<le> x \<Longrightarrow> 2 \<le> toFixed1 x"
  unfolding toFixed1_def by (simp add: le_floor_iff le_divide_eq)

lemma toFixed1_le_11: "0 \<le> x \<Longrightarrow> x \<le> 11 \<Longrightarrow> toFixed1 x \<le> 11"
  unfolding toFixed1_def by (simp add: divide_le_eq floor_le_iff)

lemma hash_sum_list:
  "foldl (\<lambda>acc ch. acc + charCodeAt0 ch) a s = a + sum_list (map charCodeAt0 s)"
  by (induction s arbitrary: a) auto

lemma seasonalBoost_nonneg:
  assumes "month < 12"
  shows "0 \<le> sin (((real month + 1) / 12) * pi)"
proof (rule sin_ge_zero)
  show "0 \<le> (real month + 1) / 12 * pi" by simp
  have "(real month + 1) / 12 \<le> 1" using assms by simp
  then have "(real month + 1) / 12 * pi \<le> 1 * pi"
    by (rule mult_right_mono) simp
  then show "(real month + 1) / 12 * pi \<le> pi" by simp
qed

lemma toLowerCase_A: "toLowerCase ''A'' = ''a''"
  by code_simp

lemma deriveBaseUv_December_A: "deriveBaseUv 11 ''A'' = 2.8"
  by (simp add: deriveBaseUv_def toLowerCase_A charCodeAt0_def toFixed1_def)

lemma calculateExposureGain_rounded_exact:
  "calculateExposureGain_rounded (\<lambda>x. x) secs b c s = calculateExposureGain secs b c s"
  by (simp add: calculateExposureGain_rounded_def calculateExposureGain_def)

lemma floor_log2_scaled:
  assumes lo: "2 ^ 52 \<le> \<bar>x\<bar> * 2 ^ k" and hi: "\<bar>x\<bar> * 2 ^ k < 2 ^ 53"
  shows "\<lfloor>log 2 \<bar>x\<bar>\<rfloor> = 52 - int k"
proof -
  have pos: "0 < \<bar>x\<bar>"
  proof (rule ccontr)
    assume "\<not> 0 < \<bar>x\<bar>"
    then have "\<bar>x\<bar> = 0" by simp
    with lo show False by simp
  qed
  have p52: "(2::real) powr (52 - real k) = 2 ^ 52 / 2 ^ k"
    by (simp add: powr_diff powr_realpow)
  have p53: "(2::real) powr (53 - real k) = 2 ^ 53 / 2 ^ k"
    by (simp add: powr_diff powr_realpow)
  have "2 powr (52 - real k) \<le> \<bar>x\<bar>"
    unfolding p52 using lo by (simp add: divide_le_eq)
  then have l: "52 - real k \<le> log 2 \<bar>x\<bar>"
    using pos by (simp add: le_log_iff)
  have "\<bar>x\<bar> < 2 powr (53 - real k)"
    unfolding p53 using hi by (simp add: less_divide_eq)
  then have h: "log 2 \<bar>x\<bar> < 53 - real k"
    using pos by (simp add: log_less_iff)
  show ?thesis using l h by (intro floor_unique) simp_all
qed

text \<open>A number whose significand, scaled by \<open>2^k\<close>, has 53 bits is rounded at that scale.\<close>

lemma binary64_scaled:
  assumes lo: "2 ^ 52 \<le> \<bar>x\<bar> * 2 ^ k" and hi: "\<bar>x\<bar> * 2 ^ k < 2 ^ 53" and k: "k \<le> 1074"
  shows "binary64 x = of_int (roundTiesToEven (x * 2 ^ k)) / 2 ^ k"
proof -
  have nz: "x \<noteq> 0" using lo by auto
  have e: "\<lfloor>log 2 \<bar>x\<bar>\<rfloor> = 52 - int k" using lo hi by (rule floor_log2_scaled)
  have m: "max (52 - int k) (- 1022) = 52 - int k" using k by simp
  have u: "(2::real) powr (- real k) = 1 / 2 ^ k"
    by (simp add: powr_minus powr_realpow divide_simps)
  show ?thesis
    using nz by (simp add: binary64_def Let_def e m u)
qed

text \<open>
  The doubles of one stop: 2.8 as a double, 45 seconds as 0.75 minutes, the product
  2.0999999999999996 (a tie, rounded to the even significand) and the gain
  10.499999999999998.
\<close>

lemma binary64_2_8: "binary64 2.8 = 6305039478318694 / 2 ^ 51"
  by (subst binary64_scaled [where k = 51]) (simp_all add: roundTiesToEven_def Let_def)

lemma binary64_2_8_exact:
  "binary64 (6305039478318694 / 2 ^ 51) = 6305039478318694 / 2 ^ 51"
  by (subst binary64_scaled [where k = 51]) (simp_all add: roundTiesToEven_def Let_def)

lemma binary64_45_seconds: "binary64 (45 / 60) = 3 / 4"
  by (subst binary64_scaled [where k = 53]) (simp_all add: roundTiesToEven_def Let_def)

lemma binary64_1: "binary64 1 = 1"
  by (subst binary64_scaled [where k = 52]) (simp_all add: roundTiesToEven_def Let_def)

lemma binary64_2_8_times_0_75:
  "binary64 (6305039478318694 / 2 ^ 51 * (3 / 4)) = 4728779608739020 / 2 ^ 51"
  by (subst binary64_scaled [where k = 51]) (simp_all add: roundTiesToEven_def Let_def)

lemma binary64_gain:
  "binary64 (4728779608739020 / 2 ^ 51 * 5) = 5910974510923775 / 2 ^ 49"
  by (subst binary64_scaled [where k = 49]) (simp_all add: roundTiesToEven_def Let_def)

lemma binary64_gain_exact:
  "binary64 (5910974510923775 / 2 ^ 49) = 5910974510923775 / 2 ^ 49"
  by (subst binary64_scaled [where k = 49]) (simp_all add: roundTiesToEven_def Let_def)

lemma updateState_persisted:
  "persistedState (updateState u a) = merge (persistedState a) u"
  by (simp add: updateState_def Let_def)

lemma updateState_session:
  "sessionActive (updateState u a) = sessionActive a"
  "sessionSeconds (updateState u a) = sessionSeconds a"
  "ready (updateState u a) = ready a"
  by (simp_all add: updateState_def Let_def)

lemma updateState_item:
  "writable (storage a) \<Longrightarrow>
     item (storage (updateState u a)) = Some (JSON_stringify (merge (persistedState a) u))"
  by (simp add: updateState_def Let_def setItem_def)

lemma updateState_flags:
  "readable (storage (updateState u a)) = readable (storage a)"
  "writable (storage (updateState u a)) = writable (storage a)"
  by (simp_all add: updateState_def Let_def setItem_def)

lemma merge_noUpdates: "merge s noUpdates = s"
  by (simp add: merge_def noUpdates_def)

lemma tick_inactive: "\<not> sessionActive a \<Longrightarrow> (tick ^^ n) a = a"
  by (induction n) (simp_all add: tick_def)

lemma tryLoad_stringify:
  "readable st \<Longrightarrow> item st = Some (JSON_stringify s) \<Longrightarrow>
   tryLoad st = Inr (Some
     \<lparr>location = (if location s = [] then ''San Francisco, CA'' else location s),
      clothing = clothing s, sunscreen = sunscreen s,
      vitaminGoal = (if vitaminGoal s = 0 then 1000 else vitaminGoal s),
      vitaminProgress = (if vitaminProgress s = 0 then 250 else vitaminProgress s)\<rparr>)"
  by (simp add: tryLoad_def getItem_def JSON_stringify_def defaultPersistedState_def)

lemma minus100_progress:
  "vitaminProgress (persistedState (minus100 a)) = max (vitaminProgress (persistedState a) - 100) 0"
  by (simp add: minus100_def updateState_persisted merge_def noUpdates_def)

lemma or_number_pos:
  "0 < d \<Longrightarrow> (case v of None \<Rightarrow> True | Some g \<Rightarrow> 0 \<le> g) \<Longrightarrow> 0 < or_number v d"
  by (cases v) auto

lemma tryLoad_goal_pos:
  assumes "storedGoalNotNegative (item st)" and "tryLoad st = Inr (Some s)"
  shows "0 < vitaminGoal s"
proof (cases "item st")
  case None
  then show ?thesis using assms(2) by (simp add: tryLoad_def getItem_def split: if_splits)
next
  case (Some r)
  show ?thesis
  proof (cases r)
    case (ObjectText p)
    have "0 < or_number (p_vitaminGoal p) 1000"
      using assms(1) Some ObjectText by (intro or_number_pos) simp_all
    then show ?thesis
      using assms(2) Some ObjectText
      by (auto simp add: tryLoad_def getItem_def defaultPersistedState_def split: if_splits)
  qed (use assms(2) Some in \<open>simp_all add: tryLoad_def getItem_def split: if_splits\<close>)
qed

lemma loadEffect_goal_pos:
  assumes "storedGoalNotNegative (item st)"
  shows "0 < vitaminGoal (persistedState (loadEffect (initialApp st)))"
proof (cases "tryLoad st")
  case (Inl e)
  then show ?thesis
    by (simp add: loadEffect_def initialApp_def defaultPersistedState_def)
next
  case (Inr r)
  show ?thesis
  proof (cases r)
    case None
    then show ?thesis using Inr
      by (simp add: loadEffect_def initialApp_def defaultPersistedState_def)
  next
    case (Some s)
    then have "0 < vitaminGoal s" using assms Inr by (intro tryLoad_goal_pos) simp_all
    then show ?thesis using Inr Some by (simp add: loadEffect_def initialApp_def)
  qed
qed

lemma mount_goal_pos:
  assumes "storedGoalNotNegative (item st)"
  shows "0 < vitaminGoal (persistedState (mount st))"
proof -
  have "persistedState (mount st) = persistedState (loadEffect (initialApp st))"
    by (simp add: mount_def readyEffect_def updateState_persisted merge_noUpdates)
  then show ?thesis using loadEffect_goal_pos [OF assms] by simp
qed

lemma handleStop_goal:
  "vitaminGoal (persistedState (handleStop month a)) = vitaminGoal (persistedState a)"
  by (simp add: handleStop_def Let_def updateState_persisted merge_def noUpdates_def)

lemma handle_goal_pos:
  assumes "positiveGoalEdit e" and "0 < vitaminGoal (persistedState a)"
  shows "0 < vitaminGoal (persistedState (handle a e))"
proof (cases e)
  case (GoalChange v)
  then show ?thesis using assms(1)
    by (cases v) (simp_all add: onGoalChange_def updateState_persisted merge_def noUpdates_def)
next
  case (Stop month)
  then show ?thesis using assms(2) by (simp add: handleStop_goal)
qed (use assms(2) in \<open>simp_all add: updateState_persisted merge_def noUpdates_def
      minus100_def plus100_def resetProgress_def handleStart_def handleReset_def tick_def\<close>)

lemma run_goal_pos:
  "list_all positiveGoalEdit evs \<Longrightarrow> 0 < vitaminGoal (persistedState a) \<Longrightarrow>
   0 < vitaminGoal (persistedState (run a evs))"
  unfolding run_def
  by (induction evs arbitrary: a) (simp_all add: handle_goal_pos)

subsection \<open>Exposure calculator\<close>

text \<open>
  C1. For every elapsed time, base UV, clothing preset and sunscreen preset,
  calculateExposureGain returns effectiveUv = baseUv times the clothing attenuation times
  the sunscreen attenuation, and vitaminGain = effectiveUv times (seconds / 60) times 5.
  The gain is 0 after 0 seconds, and 60 seconds at base UV 10, mostly covered, with SPF 50
  give effectiveUv 0.8 and vitaminGain 4.
\<close>

theorem calculateExposureGain_formula:
  "effectiveUv (calculateExposureGain secs b c s) =
     b * attenuation (clothingPresets c) * attenuation (sunscreenPresets s)
   \<and> vitaminGain (calculateExposureGain secs b c s) =
     effectiveUv (calculateExposureGain secs b c s) * (secs / 60) * 5
   \<and> vitaminGain (calculateExposureGain 0 b c s) = 0
   \<and> calculateExposureGain 60 10 covered spf50 = \<lparr>effectiveUv = 0.8, vitaminGain = 4\<rparr>"
  by (simp add: calculateExposureGain_def Let_def)

subsection \<open>Base UV index\<close>

text \<open>
  C2, as the specification words it: deriveBaseUv sums the character codes of the location
  string. The source lower-cases the string first, so the two differ as soon as the
  location holds a capital letter: in December (month 11, seasonal term 0) the location
  "A" gives 2.8, the sum over the string itself would give 2.6.
\<close>

theorem deriveBaseUv_spec_counterexample:
  "deriveBaseUv 11 ''A'' = 2.8 \<and> spec_deriveBaseUv 11 ''A'' = 2.6
   \<and> deriveBaseUv 11 ''A'' \<noteq> spec_deriveBaseUv 11 ''A''"
  by (simp add: deriveBaseUv_def spec_deriveBaseUv_def toLowerCase_A charCodeAt0_def toFixed1_def)

text \<open>
  C2, amended: for every location and month, deriveBaseUv is the value obtained by summing
  the character codes of the lower-cased location string, taking the sum modulo 700,
  scaling the remainder into [2, 8], adding the seasonal term, clamping to at most 11 and
  rounding to one decimal. The empty string is a valid input, with sum 0.
\<close>

theorem deriveBaseUv_lowercase:
  "deriveBaseUv month loc = spec_deriveBaseUv month (toLowerCase loc)
   \<and> sum_list (map charCodeAt0 (toLowerCase '''')) = 0"
  by (simp add: deriveBaseUv_def spec_deriveBaseUv_def hash_sum_list toLowerCase_def)

text \<open>
  C3. For every location string and every month (0 to 11), the value of deriveBaseUv lies
  in the closed interval from 2.0 to 11.0.
\<close>

theorem deriveBaseUv_range:
  assumes "month < 12"
  shows "2 \<le> deriveBaseUv month loc \<and> deriveBaseUv month loc \<le> 11"
proof -
  define h where "h = foldl (\<lambda>acc ch. acc + charCodeAt0 ch) 0 (toLowerCase loc)"
  define n where "n = (real (h mod 700) / 700) * 6 + 2"
  define b where "b = sin (((real month + 1) / 12) * pi)"
  have n2: "2 \<le> n" by (simp add: n_def)
  have b0: "0 \<le> b" unfolding b_def using assms by (rule seasonalBoost_nonneg)
  have lo: "2 \<le> min (n + b * 3) 11" using n2 b0 by simp
  have hi: "min (n + b * 3) 11 \<le> 11" by simp
  have eq: "deriveBaseUv month loc = toFixed1 (min (n + b * 3) 11)"
    by (simp add: deriveBaseUv_def Let_def h_def n_def b_def)
  from lo have "2 \<le> toFixed1 (min (n + b * 3) 11)" by (rule toFixed1_ge_2)
  moreover from lo hi have "toFixed1 (min (n + b * 3) 11) \<le> 11"
    by (intro toFixed1_le_11) simp_all
  ultimately show ?thesis by (simp add: eq)
qed

theorem deriveBaseUv_range_witness:
  "(5::nat) < 12 \<and> 2 \<le> deriveBaseUv 5 ''A'' \<and> deriveBaseUv 5 ''A'' \<le> 11
   \<and> deriveBaseUv 5 ''A'' = 5.8"
proof -
  have m: "(5::nat) < 12" by simp
  have v: "deriveBaseUv 5 ''A'' = 5.8"
    by (simp add: deriveBaseUv_def toLowerCase_A charCodeAt0_def toFixed1_def)
  show ?thesis using m deriveBaseUv_range [OF m, of "''A''"] v by simp
qed

subsection \<open>Hourly forecast\<close>

text \<open>
  C4. For every base UV, generateForecast returns exactly 8 entries, and the entry at each
  index i below 8 has uv = max (baseUv * (0.4 + sin ((i / 8) * pi)) rounded to one
  decimal) 0, so that every uv is at least 0.
\<close>

theorem generateForecast_entries:
  "length (generateForecast hourLabel b) = 8
   \<and> (\<forall>i<8. uv (generateForecast hourLabel b ! i)
                = max (toFixed1 (b * (0.4 + sin ((real i / 8) * pi)))) 0
              \<and> 0 \<le> uv (generateForecast hourLabel b ! i))"
  by (simp add: generateForecast_def Let_def)

theorem generateForecast_entries_witness:
  "length (generateForecast (\<lambda>i. ''3pm'') 5) = 8
   \<and> (0::nat) < 8
   \<and> uv (generateForecast (\<lambda>i. ''3pm'') 5 ! 0) = 2
   \<and> uv (generateForecast (\<lambda>i. ''3pm'') 5 ! 4) = 7
   \<and> 0 \<le> uv (generateForecast (\<lambda>i. ''3pm'') 5 ! 0)"
proof -
  have t: "toFixed1 2 = 2" "toFixed1 7 = 7" by (simp_all add: toFixed1_def)
  have "(4::real) / 8 * pi = pi / 2" by simp
  then have s: "sin ((4::real) / 8 * pi) = 1" by simp
  from generateForecast_entries [of "\<lambda>i. ''3pm''" 5]
  show ?thesis using t s by simp
qed

subsection \<open>Risk label\<close>

text \<open>
  C5. The label is Low exactly when uv < 3, Moderate exactly when 3 \<le> uv < 6, High
  exactly when 6 \<le> uv < 8, Very High exactly when 8 \<le> uv < 11 and Extreme exactly
  when 11 \<le> uv. The upper bounds are exclusive: 3.0 is Moderate, 10.9 is Very High and
  11.0 is Extreme.
\<close>

theorem determineRiskLabel_thresholds:
  "(determineRiskLabel v = ''Low'') = (v < 3)
   \<and> (determineRiskLabel v = ''Moderate'') = (3 \<le> v \<and> v < 6)
   \<and> (determineRiskLabel v = ''High'') = (6 \<le> v \<and> v < 8)
   \<and> (determineRiskLabel v = ''Very High'') = (8 \<le> v \<and> v < 11)
   \<and> (determineRiskLabel v = ''Extreme'') = (11 \<le> v)
   \<and> determineRiskLabel 3.0 = ''Moderate''
   \<and> determineRiskLabel 10.9 = ''Very High''
   \<and> determineRiskLabel 11.0 = ''Extreme''"
  by (simp add: determineRiskLabel_def)

subsection \<open>Session timer\<close>

text \<open>
  C6. If the session is running, stop makes it not active, leaves the seconds counter
  where it was (later ticks do not move it), and sets vitaminProgress to the rounded sum
  of the previous vitaminProgress and the vitaminGain that the exposure calculator gives
  for the frozen seconds, the calculator and the sum being computed in double precision.
  If the session is not running, stop changes nothing: neither the session nor the
  persisted state nor the storage.
\<close>

theorem handleStop_behaviour:
  "(sessionActive a \<longrightarrow>
      \<not> sessionActive (handleStop month a)
      \<and> sessionSeconds (handleStop month a) = sessionSeconds a
      \<and> sessionSeconds ((tick ^^ n) (handleStop month a)) = sessionSeconds a
      \<and> vitaminProgress (persistedState (handleStop month a)) =
          Math_round (binary64 (vitaminProgress (persistedState a)
            + vitaminGain (calculateExposureGain_rounded binary64 (real (sessionSeconds a))
                (binary64 (deriveBaseUv month (location (persistedState a))))
                (clothing (persistedState a)) (sunscreen (persistedState a))))))
   \<and> (\<not> sessionActive a \<longrightarrow> handleStop month a = a)"
proof (intro conjI impI)
  assume act: "sessionActive a"
  show na: "\<not> sessionActive (handleStop month a)"
    using act by (simp add: handleStop_def Let_def updateState_session)
  show "sessionSeconds (handleStop month a) = sessionSeconds a"
    using act by (simp add: handleStop_def Let_def updateState_session)
  then show "sessionSeconds ((tick ^^ n) (handleStop month a)) = sessionSeconds a"
    using na by (simp add: tick_inactive)
  show "vitaminProgress (persistedState (handleStop month a)) =
          Math_round (binary64 (vitaminProgress (persistedState a)
            + vitaminGain (calculateExposureGain_rounded binary64 (real (sessionSeconds a))
                (binary64 (deriveBaseUv month (location (persistedState a))))
                (clothing (persistedState a)) (sunscreen (persistedState a)))))"
    using act by (simp add: handleStop_def Let_def updateState_persisted merge_def noUpdates_def)
next
  assume "\<not> sessionActive a"
  then show "handleStop month a = a" by (simp add: handleStop_def)
qed

text \<open>
  In December, 45 seconds at the location "A" with minimal clothing, no sunscreen and a
  progress of 0: the doubles give the gain 10.499999999999998 and the progress 10 (the
  exact product 2.8 * 0.75 * 5 = 10.5 would round to 11). A second stop changes nothing.
\<close>

theorem handleStop_behaviour_witness:
  "sessionActive running45
   \<and> \<not> sessionActive (handleStop 11 running45)
   \<and> sessionSeconds ((tick ^^ 3) (handleStop 11 running45)) = 45
   \<and> vitaminProgress (persistedState (handleStop 11 running45)) = 10
   \<and> \<not> sessionActive (handleStop 11 (handleStop 11 running45))
   \<and> handleStop 11 (handleStop 11 running45) = handleStop 11 running45"
proof -
  have act: "sessionActive running45" by (simp add: running45_def initialApp_def)
  have st: "persistedState running45 =
      \<lparr>location = ''A'', clothing = minimal, sunscreen = none,
       vitaminGoal = 1000, vitaminProgress = 0\<rparr>"
    "sessionSeconds running45 = 45"
    by (simp_all add: running45_def initialApp_def)
  have g: "vitaminGain (calculateExposureGain_rounded binary64 45 (binary64 2.8) minimal none)
      = 5910974510923775 / 2 ^ 49"
    unfolding calculateExposureGain_rounded_def Let_def
    by (simp only: exposure.select_convs preset.select_convs clothingPresets.simps
        sunscreenPresets.simps mult_1_right binary64_2_8 binary64_1 binary64_2_8_exact
        binary64_45_seconds binary64_2_8_times_0_75 binary64_gain)
  have r: "Math_round (binary64 (0 + 5910974510923775 / 2 ^ 49)) = 10"
    by (simp only: add_0 binary64_gain_exact) (simp add: Math_round_def)
  have gr: "Math_round (binary64 (0 + vitaminGain
      (calculateExposureGain_rounded binary64 45 (binary64 2.8) minimal none))) = 10"
    unfolding g by (rule r)
  note t = handleStop_behaviour [of running45 11 3]
  have s1: "\<not> sessionActive (handleStop 11 running45)" using t act by blast
  have "sessionSeconds ((tick ^^ 3) (handleStop 11 running45)) = sessionSeconds running45"
    using t act by blast
  then have s2: "sessionSeconds ((tick ^^ 3) (handleStop 11 running45)) = 45"
    by (simp only: st)
  have "vitaminProgress (persistedState (handleStop 11 running45)) =
      Math_round (binary64 (vitaminProgress (persistedState running45)
        + vitaminGain (calculateExposureGain_rounded binary64 (real (sessionSeconds running45))
            (binary64 (deriveBaseUv 11 (location (persistedState running45))))
            (clothing (persistedState running45)) (sunscreen (persistedState running45)))))"
    using t act by blast
  also have "\<dots> = 10"
    by (simp only: st PersistedState.select_convs of_nat_numeral deriveBaseUv_December_A gr)
  finally have s3: "vitaminProgress (persistedState (handleStop 11 running45)) = 10" .
  from handleStop_behaviour [of "handleStop 11 running45" 11 0] s1
  have s4: "handleStop 11 (handleStop 11 running45) = handleStop 11 running45" by simp
  show ?thesis using act s1 s2 s3 s4 by simp
qed

subsection \<open>Persistence\<close>

text \<open>
  C7. Round trip: when a state is saved (the storage takes the write) and then loaded as
  on a fresh start, every field whose saved value is truthy comes back as saved, and every
  falsy field (an empty location, a goal or progress of 0) comes back as its hardcoded
  default; a saved vitaminProgress of 0 reloads as 250.
\<close>

theorem persistence_round_trip:
  assumes "writable (storage a)" and "readable (storage a)"
  shows "persistedState (loadEffect (initialApp (storage (updateState u a)))) =
     \<lparr>location = (if location (persistedState (updateState u a)) = []
                  then ''San Francisco, CA'' else location (persistedState (updateState u a))),
      clothing = clothing (persistedState (updateState u a)),
      sunscreen = sunscreen (persistedState (updateState u a)),
      vitaminGoal = (if vitaminGoal (persistedState (updateState u a)) = 0
                     then 1000 else vitaminGoal (persistedState (updateState u a))),
      vitaminProgress = (if vitaminProgress (persistedState (updateState u a)) = 0
                         then 250 else vitaminProgress (persistedState (updateState u a)))\<rparr>"
proof -
  let ?s = "persistedState (updateState u a)"
  have r: "readable (storage (updateState u a))"
    using assms(2) by (simp add: updateState_flags)
  have i: "item (storage (updateState u a)) = Some (JSON_stringify ?s)"
    using assms(1) by (simp add: updateState_item updateState_persisted)
  show ?thesis
    by (simp add: loadEffect_def initialApp_def tryLoad_stringify [OF r i])
qed

theorem persistence_round_trip_witness:
  "writable (storage (initialApp okStorage)) \<and> readable (storage (initialApp okStorage))
   \<and> persistedState
       (updateState (noUpdates\<lparr>p_vitaminProgress := Some 0, p_vitaminGoal := Some 800\<rparr>)
          (initialApp okStorage))
     = \<lparr>location = ''San Francisco, CA'', clothing = light, sunscreen = spf30,
        vitaminGoal = 800, vitaminProgress = 0\<rparr>
   \<and> persistedState (loadEffect (initialApp (storage
        (updateState (noUpdates\<lparr>p_vitaminProgress := Some 0, p_vitaminGoal := Some 800\<rparr>)
           (initialApp okStorage)))))
     = \<lparr>location = ''San Francisco, CA'', clothing = light, sunscreen = spf30,
        vitaminGoal = 800, vitaminProgress = 250\<rparr>"
proof -
  have w: "writable (storage (initialApp okStorage))"
    and r: "readable (storage (initialApp okStorage))"
    by (simp_all add: initialApp_def okStorage_def)
  have s: "persistedState
       (updateState (noUpdates\<lparr>p_vitaminProgress := Some 0, p_vitaminGoal := Some 800\<rparr>)
          (initialApp okStorage))
     = \<lparr>location = ''San Francisco, CA'', clothing = light, sunscreen = spf30,
        vitaminGoal = 800, vitaminProgress = 0\<rparr>"
    by (simp add: updateState_persisted merge_def noUpdates_def initialApp_def
        defaultPersistedState_def)
  show ?thesis
    using w r s
      persistence_round_trip [OF w r,
        of "noUpdates\<lparr>p_vitaminProgress := Some 0, p_vitaminGoal := Some 800\<rparr>"]
    by simp
qed

text \<open>
  C10. Mounting runs the load and then, the readiness flag being true, an update with an
  empty partial state, which writes the whole in-memory state to the slot (when the
  storage takes the write): the stored record becomes the state after the fallback, with
  no user edit. A stored vitaminProgress of 0 is replaced by 250 in the slot.
\<close>

theorem mount_writes_back:
  assumes "writable st"
  shows "mount st = updateState noUpdates (loadEffect (initialApp st))
     \<and> ready (mount st)
     \<and> persistedState (mount st) = persistedState (loadEffect (initialApp st))
     \<and> item (storage (mount st)) = Some (JSON_stringify (persistedState (mount st)))"
proof -
  let ?l = "loadEffect (initialApp st)"
  have rd: "ready ?l" by (simp add: loadEffect_def Let_def)
  have stl: "storage ?l = st"
    by (simp add: loadEffect_def Let_def initialApp_def split: sum.splits option.splits)
  have m: "mount st = updateState noUpdates ?l"
    using rd by (simp add: mount_def readyEffect_def)
  have w: "writable (storage ?l)" using assms stl by simp
  show ?thesis
    using rd by (simp add: m updateState_session updateState_persisted merge_noUpdates
        updateState_item [OF w])
qed

theorem mount_writes_back_witness:
  "writable zeroProgressStorage
   \<and> item zeroProgressStorage
       = Some (JSON_stringify (defaultPersistedState\<lparr>vitaminProgress := 0\<rparr>))
   \<and> ready (mount zeroProgressStorage)
   \<and> item (storage (mount zeroProgressStorage))
       = Some (JSON_stringify (defaultPersistedState\<lparr>vitaminProgress := 250\<rparr>))"
proof -
  have w: "writable zeroProgressStorage" by (simp add: zeroProgressStorage_def)
  have r: "readable zeroProgressStorage" by (simp add: zeroProgressStorage_def)
  have i: "item zeroProgressStorage
      = Some (JSON_stringify (defaultPersistedState\<lparr>vitaminProgress := 0\<rparr>))"
    by (simp add: zeroProgressStorage_def)
  have l: "persistedState (loadEffect (initialApp zeroProgressStorage))
      = defaultPersistedState\<lparr>vitaminProgress := 250\<rparr>"
    by (simp add: loadEffect_def initialApp_def tryLoad_stringify [OF r i]
        defaultPersistedState_def)
  note t = mount_writes_back [OF w]
  have a: "ready (mount zeroProgressStorage)" using t by blast
  have b: "persistedState (mount zeroProgressStorage)
      = persistedState (loadEffect (initialApp zeroProgressStorage))" using t by blast
  have c: "item (storage (mount zeroProgressStorage))
      = Some (JSON_stringify (persistedState (mount zeroProgressStorage)))" using t by blast
  show ?thesis using w i a c by (simp add: b l)
qed

subsection \<open>Progress and goal\<close>

text \<open>
  C8. Starting from a vitaminProgress that is not negative, any number of clicks on
  "-100 IU" leaves vitaminProgress not negative; each click sets it to
  max (previous - 100) 0.
\<close>

theorem minus100_floor:
  assumes "0 \<le> vitaminProgress (persistedState a)"
  shows "0 \<le> vitaminProgress (persistedState ((minus100 ^^ n) a))
     \<and> vitaminProgress (persistedState (minus100 ((minus100 ^^ n) a)))
         = max (vitaminProgress (persistedState ((minus100 ^^ n) a)) - 100) 0"
proof -
  have "0 \<le> vitaminProgress (persistedState ((minus100 ^^ n) a))"
  proof (induction n)
    case 0
    show ?case using assms by simp
  next
    case (Suc n)
    show ?case by (simp add: minus100_progress)
  qed
  then show ?thesis by (simp add: minus100_progress)
qed

theorem minus100_floor_witness:
  "0 \<le> vitaminProgress (persistedState (initialApp okStorage))
   \<and> vitaminProgress (persistedState ((minus100 ^^ 2) (initialApp okStorage))) = 50
   \<and> vitaminProgress (persistedState (minus100 ((minus100 ^^ 2) (initialApp okStorage)))) = 0
   \<and> 0 \<le> vitaminProgress (persistedState ((minus100 ^^ 2) (initialApp okStorage)))"
proof -
  have p: "0 \<le> vitaminProgress (persistedState (initialApp okStorage))"
    by (simp add: initialApp_def defaultPersistedState_def)
  have v: "vitaminProgress (persistedState ((minus100 ^^ 2) (initialApp okStorage))) = 50"
    by (simp add: numeral_2_eq_2 minus100_progress initialApp_def defaultPersistedState_def)
  show ?thesis using p v minus100_floor [OF p, of 2] by simp
qed

text \<open>
  C9, as the specification words it: vitaminGoal is positive in every reachable state, also
  after a goal edit. The goal edit stores \<open>Number(value || 0)\<close>: clearing the field sets
  the goal to 0, and with the progress reset as well the percentage is \<open>0 / 0\<close>.
\<close>

theorem goal_unvalidated_counterexample:
  "vitaminGoal (persistedState (run (mount okStorage) [GoalChange None])) = 0
   \<and> \<not> 0 < vitaminGoal (persistedState (run (mount okStorage) [GoalChange None]))
   \<and> progressPercentage (persistedState (run (mount okStorage) [GoalChange None, ResetProgress]))
       = NaN"
  by (simp add: run_def onGoalChange_def resetProgress_def updateState_persisted merge_def
      noUpdates_def progressPercentage_def)

text \<open>
  C9, amended: vitaminGoal is positive, and the progress percentage divides by a non-zero
  goal, in every state reached from a startup whose stored goal is missing or not negative
  through events whose goal edits all carry a positive number. The goal edit itself
  validates nothing: it stores the number typed, and an empty input is coerced to 0.
\<close>

theorem goal_positive_when_edits_positive:
  assumes "storedGoalNotNegative (item st)" and "list_all positiveGoalEdit evs"
  shows "0 < vitaminGoal (persistedState (run (mount st) evs))
     \<and> progressPercentage (persistedState (run (mount st) evs))
         = Finite (min ((vitaminProgress (persistedState (run (mount st) evs))
                         / vitaminGoal (persistedState (run (mount st) evs))) * 100) 100)
     \<and> vitaminGoal (persistedState (handle a (GoalChange (Some r)))) = r
     \<and> vitaminGoal (persistedState (handle a (GoalChange None))) = 0"
proof -
  have g: "0 < vitaminGoal (persistedState (run (mount st) evs))"
    using assms by (intro run_goal_pos mount_goal_pos)
  then have p: "progressPercentage (persistedState (run (mount st) evs))
         = Finite (min ((vitaminProgress (persistedState (run (mount st) evs))
                         / vitaminGoal (persistedState (run (mount st) evs))) * 100) 100)"
    by (simp add: progressPercentage_def)
  have e: "vitaminGoal (persistedState (handle a (GoalChange (Some r)))) = r"
    "vitaminGoal (persistedState (handle a (GoalChange None))) = 0"
    by (simp_all add: onGoalChange_def updateState_persisted merge_def noUpdates_def)
  show ?thesis using g p e by blast
qed

theorem goal_positive_when_edits_positive_witness:
  "storedGoalNotNegative (item okStorage)
   \<and> list_all positiveGoalEdit [GoalChange (Some 500), Minus100, Start, Tick, Stop 11]
   \<and> 0 < vitaminGoal (persistedState
             (run (mount okStorage) [GoalChange (Some 500), Minus100, Start, Tick, Stop 11]))
   \<and> vitaminGoal (persistedState (handle (mount okStorage) (GoalChange None))) = 0"
proof -
  have s: "storedGoalNotNegative (item okStorage)" by (simp add: okStorage_def)
  have l: "list_all positiveGoalEdit [GoalChange (Some 500), Minus100, Start, Tick, Stop 11]"
    by simp
  show ?thesis
    using s l goal_positive_when_edits_positive [OF s l, of "mount okStorage" 0] by blast
qed

end
